theory Spec2Isabelle
  imports Main "HOL-Library.Word"
begin

unbundle bit_operations_syntax

section \<open>Bytes, runes and values\<close>

text \<open>
  Go strings and byte slices are sequences of octets; a rune is a code point.
  Input buffers, the scratch string \<open>p.s\<close> and the scratch slice \<open>p.b\<close> are all
  byte lists. \<open>bytes_of\<close> turns an ASCII literal into such a list.
\<close>

type_synonym byte = "8 word"
type_synonym bytes = "8 word list"
type_synonym rune = nat

definition bytes_of :: "string \<Rightarrow> bytes" where
  "bytes_of cs = map (\<lambda>c. of_nat (of_char c)) cs"

text \<open>
  The dynamic type of an \<open>interface{}\<close> element: \<open>string\<close>, \<open>[]byte\<close>, \<open>int\<close>,
  \<open>int64\<close>, \<open>uint64\<close>, \<open>[]interface{}\<close>, or anything else (\<open>VOther\<close>).
  \<open>int\<close> is kept at 32 bits, the width the narrowing in \<open>write\<close> is written for.
\<close>

datatype val =
    VString bytes
  | VBytes bytes
  | VInt "32 word"
  | VInt64 "64 word"
  | VUint64 "64 word"
  | VList "val list"
  | VOther

datatype error =
    ErrDepthLimitExceeded
  | ErrListEnd
  | InvalidToken rune
  | ErrUnsupportedType
  | ErrBase64
  | PanicNilReader
  | PanicSliceBounds
  | PanicNilDecoder
  | PanicBadSelector
  | PanicNonStringSelector

record Format =
  allowQuotedString :: bool
  allowIntegers :: bool
  allowLists :: bool
  allowVerbatimBinaryString :: bool
  allowBase64BinaryString :: bool
  allowVerbatimBase64BinaryString :: bool
  allowHexBinaryString :: bool
  allowTokens :: bool
  maxListDepth :: nat
  unicodeStream :: bool

definition Csexp :: Format where
  "Csexp = \<lparr> allowQuotedString = True, allowIntegers = True, allowLists = True,
     allowVerbatimBinaryString = True, allowBase64BinaryString = True,
     allowVerbatimBase64BinaryString = True, allowHexBinaryString = True,
     allowTokens = True, maxListDepth = 255, unicodeStream = False \<rparr>"

definition SX :: Format where
  "SX = \<lparr> allowQuotedString = True, allowIntegers = True, allowLists = True,
     allowVerbatimBinaryString = True, allowBase64BinaryString = True,
     allowVerbatimBase64BinaryString = True, allowHexBinaryString = True,
     allowTokens = True, maxListDepth = 255, unicodeStream = True \<rparr>"

section \<open>Canonical serializer\<close>

text \<open>\<open>strconv.FormatUint(n, 10)\<close>: the decimal digits of \<open>n\<close>, most significant first.\<close>

fun FormatUint :: "nat \<Rightarrow> bytes" where
  "FormatUint n = (if n < 10 then [of_nat (48 + n)]
                   else FormatUint (n div 10) @ [of_nat (48 + n mod 10)])"

declare FormatUint.simps [simp del]

text \<open>\<open>strconv.FormatInt(v, 10)\<close>: a leading \<open>-\<close> for negative values.\<close>

definition FormatInt :: "int \<Rightarrow> bytes" where
  "FormatInt v = (if v < 0 then 45 # FormatUint (nat (- v)) else FormatUint (nat v))"

definition writeInt :: "64 word \<Rightarrow> bytes" where
  "writeInt vs = FormatInt (sint vs)"

definition writeUint :: "64 word \<Rightarrow> bytes" where
  "writeUint vs = FormatUint (unat vs)"

text \<open>
  \<open>spacer.write\<close>: a space when the remembered type is \<open>'i'\<close> (105); the remembered type
  becomes \<open>t\<close>. The result is the bytes written and the new \<open>prevType\<close>.
\<close>

definition spacer_write :: "rune \<Rightarrow> rune \<Rightarrow> bytes \<times> rune" where
  "spacer_write prevType t = ((if prevType = 105 then [32] else []), t)"

text \<open>
  \<open>writeList\<close>: the loop over \<open>vs\<close> is \<open>writeList_loop\<close>, which carries the spacer's
  \<open>prevType\<close>; every call of \<open>writeList\<close> starts with a zero spacer. Only the three
  integer cases call the spacer.
\<close>

fun writeList_loop :: "rune \<Rightarrow> val list \<Rightarrow> error + bytes" where
  "writeList_loop prevType [] = Inr []"
| "writeList_loop prevType (v # vs) =
     (case v of
        VString vv \<Rightarrow>
          (case writeList_loop prevType vs of Inl e \<Rightarrow> Inl e
           | Inr out \<Rightarrow> Inr (writeUint (of_nat (length vv)) @ [58] @ vv @ out))
      | VBytes vv \<Rightarrow>
          (case writeList_loop prevType vs of Inl e \<Rightarrow> Inl e
           | Inr out \<Rightarrow> Inr (writeUint (of_nat (length vv)) @ [58] @ vv @ out))
      | VInt vv \<Rightarrow>
          (case writeList_loop (snd (spacer_write prevType 105)) vs of Inl e \<Rightarrow> Inl e
           | Inr out \<Rightarrow> Inr (fst (spacer_write prevType 105) @ writeInt (scast vv) @ out))
      | VInt64 vv \<Rightarrow>
          (case writeList_loop (snd (spacer_write prevType 105)) vs of Inl e \<Rightarrow> Inl e
           | Inr out \<Rightarrow> Inr (fst (spacer_write prevType 105) @ writeInt vv @ out))
      | VUint64 vv \<Rightarrow>
          (case writeList_loop (snd (spacer_write prevType 105)) vs of Inl e \<Rightarrow> Inl e
           | Inr out \<Rightarrow> Inr (fst (spacer_write prevType 105) @ writeUint vv @ out))
      | VList vv \<Rightarrow>
          (case writeList_loop 0 vv of Inl e \<Rightarrow> Inl e
           | Inr inner \<Rightarrow>
               (case writeList_loop prevType vs of Inl e \<Rightarrow> Inl e
                | Inr out \<Rightarrow> Inr ([40] @ inner @ [41] @ out)))
      | VOther \<Rightarrow> Inl ErrUnsupportedType)"

definition writeList :: "val list \<Rightarrow> error + bytes" where
  "writeList vs = writeList_loop 0 vs"

text \<open>\<open>Format.String\<close>: the format is passed along but never consulted.\<close>

definition String :: "Format \<Rightarrow> val list \<Rightarrow> error + bytes" where
  "String f vs = writeList vs"

section \<open>Library functions the parser calls\<close>

text \<open>
  \<open>utf8.DecodeRune\<close>: the rune at the head of a buffer and its width in bytes. A malformed
  or truncated sequence is \<open>RuneError\<close> with width 1.
\<close>

definition RuneError :: rune where
  "RuneError = 65533"

fun DecodeRune :: "bytes \<Rightarrow> rune \<times> nat" where
  "DecodeRune [] = (RuneError, 0)"
| "DecodeRune (p0 # ps) =
     (let c = unat p0 in
      if c < 128 then (c, 1)
      else if c < 194 \<or> 245 \<le> c then (RuneError, 1)
      else
        (let sz = (if c < 224 then 2 else if c < 240 then 3 else 4 :: nat);
             lo = (if c = 224 then 160 else if c = 240 then 144 else 128 :: nat);
             hi = (if c = 237 then 159 else if c = 244 then 143 else 191 :: nat)
         in if length ps + 1 < sz then (RuneError, 1)
            else
              (let b1 = unat (ps ! 0) in
               if b1 < lo \<or> hi < b1 then (RuneError, 1)
               else if sz \<le> 2 then ((c mod 32) * 64 + b1 mod 64, 2)
               else
                 (let b2 = unat (ps ! 1) in
                  if b2 < 128 \<or> 191 < b2 then (RuneError, 1)
                  else if sz \<le> 3 then (((c mod 16) * 64 + b1 mod 64) * 64 + b2 mod 64, 3)
                  else
                    (let b3 = unat (ps ! 2) in
                     if b3 < 128 \<or> 191 < b3 then (RuneError, 1)
                     else ((((c mod 8) * 64 + b1 mod 64) * 64 + b2 mod 64) * 64 + b3 mod 64,
                           4))))))"

text \<open>\<open>string(r)\<close> for a rune: its UTF-8 encoding, \<open>RuneError\<close>'s for an invalid rune.\<close>

definition encode_rune :: "rune \<Rightarrow> bytes" where
  "encode_rune r =
     (if r < 128 then [of_nat r]
      else if r < 2048 then [of_nat (192 + r div 64), of_nat (128 + r mod 64)]
      else if 1114111 < r \<or> (55296 \<le> r \<and> r \<le> 57343) then [239, 191, 189]
      else if r < 65536 then
        [of_nat (224 + r div 4096), of_nat (128 + (r div 64) mod 64), of_nat (128 + r mod 64)]
      else
        [of_nat (240 + r div 262144), of_nat (128 + (r div 4096) mod 64),
         of_nat (128 + (r div 64) mod 64), of_nat (128 + r mod 64)])"

text \<open>\<open>bytes.IndexByte\<close>, with \<open>None\<close> for \<open>-1\<close>.\<close>

fun IndexByte :: "bytes \<Rightarrow> byte \<Rightarrow> nat option" where
  "IndexByte [] c = None"
| "IndexByte (x # xs) c =
     (if x = c then Some 0 else (case IndexByte xs c of None \<Rightarrow> None | Some n \<Rightarrow> Some (Suc n)))"

text \<open>
  The alphabet of \<open>base64.StdEncoding\<close> and the decoding of a whole, whitespace-free
  input, four characters at a time: the bytes produced before the first error, and
  whether the input was well-formed. A streaming decoder that is read to its end on one
  input of at most 1024 characters returns exactly these bytes.
\<close>

definition b64val :: "byte \<Rightarrow> nat option" where
  "b64val c =
     (let n = unat c in
      if 65 \<le> n \<and> n \<le> 90 then Some (n - 65)
      else if 97 \<le> n \<and> n \<le> 122 then Some (n - 97 + 26)
      else if 48 \<le> n \<and> n \<le> 57 then Some (n - 48 + 52)
      else if n = 43 then Some 62
      else if n = 47 then Some 63
      else None)"

datatype quantum = Full bytes | Padded bytes | Corrupt

definition b64_quantum :: "byte \<Rightarrow> byte \<Rightarrow> byte \<Rightarrow> byte \<Rightarrow> quantum" where
  "b64_quantum c0 c1 c2 c3 =
     (case (b64val c0, b64val c1) of
        (Some v0, Some v1) \<Rightarrow>
          (case b64val c2 of
             Some v2 \<Rightarrow>
               (case b64val c3 of
                  Some v3 \<Rightarrow>
                    Full [of_nat (v0 * 4 + v1 div 16), of_nat ((v1 mod 16) * 16 + v2 div 4),
                          of_nat ((v2 mod 4) * 64 + v3)]
                | None \<Rightarrow>
                    (if c3 = 61 then
                       Padded [of_nat (v0 * 4 + v1 div 16), of_nat ((v1 mod 16) * 16 + v2 div 4)]
                     else Corrupt))
           | None \<Rightarrow>
               (if c2 = 61 \<and> c3 = 61 then Padded [of_nat (v0 * 4 + v1 div 16)] else Corrupt))
      | _ \<Rightarrow> Corrupt)"

fun b64_decode :: "bytes \<Rightarrow> bytes \<times> bool" where
  "b64_decode (c0 # c1 # c2 # c3 # cs) =
     (case b64_quantum c0 c1 c2 c3 of
        Full bs \<Rightarrow> (bs @ fst (b64_decode cs), snd (b64_decode cs))
      | Padded bs \<Rightarrow> (bs, cs = [])
      | Corrupt \<Rightarrow> ([], False))"
| "b64_decode [] = ([], True)"
| "b64_decode cs = ([], False)"

subsection \<open>The whitespace filter of \<open>b64.go\<close>\<close>

definition is_space :: "byte \<Rightarrow> bool" where
  "is_space b = (b = 13 \<or> b = 10 \<or> b = 32 \<or> b = 9)"

text \<open>
  \<open>filteringReader.Read\<close> on a buffer of \<open>cap\<close> bytes over a source holding \<open>src\<close>: the
  wrapped reader hands over the next \<open>cap\<close> bytes, the inner loop moves the bytes that are
  not whitespace to the front, and a chunk that was all whitespace is read again. The
  result is the bytes returned and what is left of the source.
\<close>

function filteringReader_Read :: "nat \<Rightarrow> bytes \<Rightarrow> bytes \<times> bytes" where
  "filteringReader_Read cap src =
     (let chunk = take cap src; left = drop cap src in
      if chunk = [] then ([], left)
      else if filter (\<lambda>b. \<not> is_space b) chunk \<noteq> [] then
        (filter (\<lambda>b. \<not> is_space b) chunk, left)
      else filteringReader_Read cap left)"
  by pat_completeness auto
termination
  by (relation "measure (\<lambda>(cap, src). length src)") auto

declare filteringReader_Read.simps [simp del]

lemma filteringReader_Read_shorter:
  "filteringReader_Read cap src = (out, left) \<Longrightarrow> out \<noteq> [] \<Longrightarrow> length left < length src"
proof (induction cap src rule: filteringReader_Read.induct)
  case (1 cap src)
  show ?case
  proof (cases "take cap src = []")
    case True
    with "1.prems" show ?thesis
      by (simp add: filteringReader_Read.simps [of cap src])
  next
    case False
    then have short: "length (drop cap src) < length src" by auto
    show ?thesis
    proof (cases "filter (\<lambda>b. \<not> is_space b) (take cap src) \<noteq> []")
      case True
      with False "1.prems" short show ?thesis
        by (simp add: filteringReader_Read.simps [of cap src] Let_def)
    next
      case nokeep: False
      with False "1.prems" have "filteringReader_Read cap (drop cap src) = (out, left)"
        by (simp add: filteringReader_Read.simps [of cap src] Let_def)
      with "1.IH" [OF refl refl False] nokeep "1.prems"(2) short show ?thesis
        by fastforce
    qed
  qed
qed

text \<open>
  Reading the filter to its end, \<open>cap\<close> bytes at a time, as the base64 decoder does with
  its 1024-byte buffer.
\<close>

function filtered_all :: "nat \<Rightarrow> bytes \<Rightarrow> bytes" where
  "filtered_all cap src =
     (case filteringReader_Read cap src of
        (out, left) \<Rightarrow> if out = [] then [] else out @ filtered_all cap left)"
  by pat_completeness auto
termination
  by (relation "measure (\<lambda>(cap, src). length src)")
     (auto dest: filteringReader_Read_shorter [OF sym])

declare filtered_all.simps [simp del]

section \<open>The incremental parser\<close>

datatype pstate =
    pstateDrifting
  | pstateInteger
  | pstateNegIntegerStart
  | pstateLengthQuotedString
  | pstateLengthByteString
  | pstateQuotedString
  | pstateQuotedStringEscape
  | pstateQuotedStringHexEscape
  | pstateQuotedStringHexEscape2
  | pstateQuotedStringOctalEscape
  | pstateQuotedStringOctalEscape2
  | pstateQuotedStringOctalEscape3
  | pstateQuotedStringEscapeCR
  | pstateQuotedStringEscapeLF
  | pstateBase64String
  | pstateToken
  | pstateHexString
  | pstateHexStringOdd

text \<open>
  The field \<open>p.b64dec\<close> is a nil interface until the \<open>|\<close> case of the drifting state
  stores a decoder in it. A decoder that has been read to the end of its input (or to an
  error) keeps that condition and yields nothing afterwards. \<open>p.subb64\<close> is likewise nil
  until the \<open>{\<close> case stores a write-decoder, whose base64 decoder is drained by its
  first \<open>Write\<close>.
\<close>

datatype decoder = DecNil | DecFresh | DecDrained

record Parser =
  p_f :: Format
  p_state :: pstate
  p_s :: bytes
  p_b :: bytes
  p_xL :: "64 word"
  p_i :: "64 word"
  p_neg :: bool
  p_lenhint :: bool
  p_bytemode :: byte
  p_reissue :: nat
  p_tokens :: "val list"
  p_stack :: "val list list"
  p_depth :: nat
  p_eof :: bool
  p_b64dec :: decoder
  p_sublexing :: bool
  p_subb64 :: decoder

definition isTokenStartChar :: "rune \<Rightarrow> bool" where
  "isTokenStartChar r \<longleftrightarrow>
     (65 \<le> r \<and> r \<le> 90) \<or> r = 95 \<or> (97 \<le> r \<and> r \<le> 122) \<or>
     r = 46 \<or> r = 46 \<or> r = 47 \<or> r = 58 \<or>
     r = 42 \<or> r = 43 \<or> r = 61 \<or> r = 45"

definition isTokenChar :: "rune \<Rightarrow> bool" where
  "isTokenChar r \<longleftrightarrow> isTokenStartChar r \<or> (48 \<le> r \<and> r \<le> 57)"

definition dechex :: "rune \<Rightarrow> byte \<times> bool" where
  "dechex r =
     (if 48 \<le> r \<and> r \<le> 57 then (of_nat (r - 48), True)
      else if 97 \<le> r \<and> r \<le> 122 then (of_nat (r - 97 + 10), True)
      else if 65 \<le> r \<and> r \<le> 90 then (of_nat (r - 65 + 10), True)
      else (0, False))"

definition decoct :: "rune \<Rightarrow> byte \<times> bool" where
  "decoct r = (if 48 \<le> r \<and> r \<le> 55 then (of_nat (r - 48), True) else (0, False))"

definition push :: "Parser \<Rightarrow> val \<Rightarrow> Parser" where
  "push p tok = p\<lparr>p_tokens := p_tokens p @ [tok]\<rparr>"

text \<open>
  The value pushed by the default branch of the integer state, from \<open>p.neg\<close> and the
  accumulated magnitude \<open>p.i\<close>: \<open>-int(p.i)\<close> or \<open>-int64(p.i)\<close> for a negative literal,
  \<open>int(p.i)\<close> or \<open>p.i\<close> itself (a \<open>uint64\<close>) otherwise.
\<close>

definition integer_token :: "bool \<Rightarrow> 64 word \<Rightarrow> val" where
  "integer_token neg i =
     (if neg then (if i \<le> 0x80000000 then VInt (- ucast i) else VInt64 (- i))
      else (if i \<le> 0x7FFFFFFF then VInt (ucast i) else VUint64 i))"

text \<open>\<open>ioutil.ReadAll(p.b64dec)\<close> with the switchable reader set to \<open>seg\<close>.\<close>

definition ReadAll_b64dec :: "decoder \<Rightarrow> bytes \<Rightarrow> bytes" where
  "ReadAll_b64dec d seg =
     (case d of DecFresh \<Rightarrow> fst (b64_decode (filtered_all 1024 seg)) | _ \<Rightarrow> [])"

text \<open>
  One pass through the \<open>switch p.state\<close> of \<open>write\<close>, for the rune \<open>r\<close>. The buffer is
  seen through the cursor: \<open>rest\<close> is \<open>b[i:]\<close> and \<open>prev\<close> is \<open>b[i-1]\<close> (absent when \<open>i = 0\<close>).
  The pass ends in one of three ways: the loop goes on (\<open>Next\<close>, with the new cursor), the
  function returns (\<open>Return\<close>), or it hands the rest of the buffer to \<open>p.Write\<close> (\<open>Sublex\<close>).
\<close>

datatype action =
    Next Parser "byte option" bytes
  | Return "error + Parser"
  | Sublex Parser

definition switch :: "Parser \<Rightarrow> byte option \<Rightarrow> bytes \<Rightarrow> rune \<Rightarrow> action" where
  "switch p prev rest r =
     (case p_state p of
        pstateDrifting \<Rightarrow>
          (if p_eof p then Return (Inr p)
           else if r = 32 \<or> r = 9 \<or> r = 13 \<or> r = 10 then Next p prev rest
           else if 48 \<le> r \<and> r \<le> 57 \<and> allowIntegers (p_f p) then
             Next (p\<lparr>p_state := pstateInteger, p_reissue := p_reissue p + 1\<rparr>) prev rest
           else if r = 45 \<and> allowIntegers (p_f p) then
             Next (p\<lparr>p_state := pstateNegIntegerStart\<rparr>) prev rest
           else if r = 40 \<and> allowLists (p_f p) then
             (if p_depth p \<ge> maxListDepth (p_f p) then Return (Inl ErrDepthLimitExceeded)
              else Next (p\<lparr>p_depth := p_depth p + 1, p_stack := p_stack p @ [p_tokens p],
                           p_tokens := []\<rparr>) prev rest)
           else if r = 41 \<and> allowLists (p_f p) then
             (if p_depth p = 0 then Return (Inl ErrListEnd)
              else if p_stack p = [] then Return (Inl PanicSliceBounds)
              else Next (p\<lparr>p_depth := p_depth p - 1, p_stack := butlast (p_stack p),
                           p_tokens := last (p_stack p) @ [VList (p_tokens p)]\<rparr>) prev rest)
           else if r = 34 \<and> allowQuotedString (p_f p) then
             Next (p\<lparr>p_state := pstateQuotedString\<rparr>) prev rest
           else if r = 124 \<and> allowBase64BinaryString (p_f p) then
             Next (p\<lparr>p_state := pstateBase64String, p_b64dec := DecFresh\<rparr>) prev rest
           else if r = 123 \<and> allowVerbatimBase64BinaryString (p_f p) \<and> \<not> p_sublexing p then
             Sublex (p\<lparr>p_sublexing := True, p_subb64 := DecFresh\<rparr>)
           else if allowTokens (p_f p) \<and> isTokenStartChar r then
             Next (p\<lparr>p_state := pstateToken, p_reissue := p_reissue p + 1\<rparr>) prev rest
           else if allowHexBinaryString (p_f p) \<and> r = 35 then
             Next (p\<lparr>p_state := pstateHexString\<rparr>) prev rest
           else Return (Inl (InvalidToken r)))
      | pstateToken \<Rightarrow>
          (if \<not> isTokenChar r then
             Next ((push (p\<lparr>p_reissue := p_reissue p + 1, p_state := pstateDrifting\<rparr>)
                      (VString (p_s p)))\<lparr>p_s := []\<rparr>) prev rest
           else Next (p\<lparr>p_s := p_s p @ encode_rune r\<rparr>) prev rest)
      | pstateNegIntegerStart \<Rightarrow>
          (if 48 \<le> r \<and> r \<le> 57 then
             Next (p\<lparr>p_state := pstateInteger, p_neg := True, p_reissue := p_reissue p + 1\<rparr>)
               prev rest
           else
             Next (p\<lparr>p_state := pstateToken, p_s := [45], p_reissue := p_reissue p + 1\<rparr>)
               prev rest)
      | pstateInteger \<Rightarrow>
          (if 48 \<le> r \<and> r \<le> 57 then
             Next (p\<lparr>p_i := p_i p * 10 + of_nat (r - 48)\<rparr>) prev rest
           else if r = 34 \<and> allowQuotedString (p_f p) \<and> \<not> p_neg p then
             Next (p\<lparr>p_xL := p_i p, p_i := 0, p_state := pstateLengthQuotedString\<rparr>) prev rest
           else if r = 35 \<and> allowHexBinaryString (p_f p) \<and> \<not> p_neg p then
             Next (p\<lparr>p_xL := p_i p, p_i := 0, p_state := pstateHexString, p_lenhint := True\<rparr>)
               prev rest
           else if r = 124 \<and> allowBase64BinaryString (p_f p) \<and> \<not> p_neg p then
             Next (p\<lparr>p_xL := p_i p, p_i := 0, p_state := pstateBase64String,
                     p_lenhint := True\<rparr>) prev rest
           else if r = 58 \<and> allowVerbatimBinaryString (p_f p) \<and> \<not> p_neg p then
             Next (p\<lparr>p_xL := p_i p, p_i := 0, p_state := pstateLengthByteString,
                     p_lenhint := True, p_bytemode := p_bytemode p + 1\<rparr>) prev rest
           else
             Next ((push p (integer_token (p_neg p) (p_i p)))
                     \<lparr>p_i := 0, p_neg := False, p_reissue := p_reissue p + 1,
                      p_state := pstateDrifting\<rparr>) prev rest)
      | pstateLengthByteString \<Rightarrow>
          (if p_xL p = 0 then
             Next ((push (p\<lparr>p_bytemode := p_bytemode p - 1, p_state := pstateDrifting\<rparr>)
                      (VBytes (p_b p)))\<lparr>p_b := [], p_reissue := p_reissue p + 1\<rparr>) prev rest
           else Next (p\<lparr>p_b := p_b p @ [of_nat r], p_xL := p_xL p - 1\<rparr>) prev rest)
      | pstateLengthQuotedString \<Rightarrow>
          (if p_xL p = 0 then
             Next ((push (p\<lparr>p_state := pstateDrifting\<rparr>) (VString (p_s p)))\<lparr>p_s := []\<rparr>)
               prev rest
           else Next (p\<lparr>p_s := p_s p @ encode_rune r, p_xL := p_xL p - 1\<rparr>) prev rest)
      | pstateQuotedString \<Rightarrow>
          (if r = 34 then
             Next ((push (p\<lparr>p_state := pstateDrifting\<rparr>) (VString (p_s p)))\<lparr>p_s := []\<rparr>)
               prev rest
           else if r = 92 then Next (p\<lparr>p_state := pstateQuotedStringEscape\<rparr>) prev rest
           else Next (p\<lparr>p_s := p_s p @ encode_rune r\<rparr>) prev rest)
      | pstateQuotedStringEscape \<Rightarrow>
          (let p1 = p\<lparr>p_state := pstateQuotedString\<rparr> in
           if r = 97 then Next (p1\<lparr>p_s := p_s p @ [7]\<rparr>) prev rest
           else if r = 98 then Next (p1\<lparr>p_s := p_s p @ [8]\<rparr>) prev rest
           else if r = 102 then Next (p1\<lparr>p_s := p_s p @ [12]\<rparr>) prev rest
           else if r = 110 then Next (p1\<lparr>p_s := p_s p @ [10]\<rparr>) prev rest
           else if r = 114 then Next (p1\<lparr>p_s := p_s p @ [13]\<rparr>) prev rest
           else if r = 116 then Next (p1\<lparr>p_s := p_s p @ [9]\<rparr>) prev rest
           else if r = 118 then Next (p1\<lparr>p_s := p_s p @ [11]\<rparr>) prev rest
           else if r = 13 then Next (p1\<lparr>p_state := pstateQuotedStringEscapeLF\<rparr>) prev rest
           else if r = 10 then Next (p1\<lparr>p_state := pstateQuotedStringEscapeCR\<rparr>) prev rest
           else if r = 120 then Next (p1\<lparr>p_state := pstateQuotedStringHexEscape\<rparr>) prev rest
           else if 48 \<le> r \<and> r \<le> 55 then
             Next (p1\<lparr>p_state := pstateQuotedStringOctalEscape, p_i := 0,
                      p_reissue := p_reissue p + 1\<rparr>) prev rest
           else Next (p1\<lparr>p_s := p_s p @ encode_rune r\<rparr>) prev rest)
      | pstateQuotedStringHexEscape \<Rightarrow>
          (case dechex r of
             (v, ok) \<Rightarrow>
               if \<not> ok then Return (Inl (InvalidToken r))
               else Next (p\<lparr>p_i := ucast v, p_state := pstateQuotedStringHexEscape2\<rparr>) prev rest)
      | pstateQuotedStringHexEscape2 \<Rightarrow>
          (case dechex r of
             (v, ok) \<Rightarrow>
               if \<not> ok then Return (Inl (InvalidToken r))
               else Next (p\<lparr>p_s := p_s p @ [ucast (push_bit 4 (p_i p)) OR v],
                             p_state := pstateQuotedString, p_i := 0\<rparr>) prev rest)
      | pstateQuotedStringOctalEscape \<Rightarrow>
          (case decoct r of
             (v, ok) \<Rightarrow>
               if \<not> ok then Return (Inl (InvalidToken r))
               else Next (p\<lparr>p_i := ucast ((ucast (push_bit 3 (p_i p)) :: byte) OR v),
                             p_state := pstateQuotedStringOctalEscape2\<rparr>) prev rest)
      | pstateQuotedStringOctalEscape2 \<Rightarrow>
          (case decoct r of
             (v, ok) \<Rightarrow>
               if \<not> ok then Return (Inl (InvalidToken r))
               else Next (p\<lparr>p_i := ucast ((ucast (push_bit 3 (p_i p)) :: byte) OR v),
                             p_state := pstateQuotedStringOctalEscape3\<rparr>) prev rest)
      | pstateQuotedStringOctalEscape3 \<Rightarrow>
          (case decoct r of
             (v, ok) \<Rightarrow>
               if \<not> ok then Return (Inl (InvalidToken r))
               else Next (p\<lparr>p_state := pstateQuotedString,
                             p_s := p_s p @ [(ucast (push_bit 3 (p_i p)) :: byte) OR v],
                             p_i := 0\<rparr>) prev rest)
      | pstateQuotedStringEscapeLF \<Rightarrow>
          (if r \<noteq> 10 then
             Next (p\<lparr>p_reissue := p_reissue p + 1, p_state := pstateQuotedString\<rparr>) prev rest
           else Next (p\<lparr>p_state := pstateQuotedString\<rparr>) prev rest)
      | pstateQuotedStringEscapeCR \<Rightarrow>
          (if r = 13 then
             Next (p\<lparr>p_reissue := p_reissue p + 1, p_state := pstateQuotedString\<rparr>) prev rest
           else Next (p\<lparr>p_state := pstateQuotedString\<rparr>) prev rest)
      | pstateBase64String \<Rightarrow>
          (case prev of
             None \<Rightarrow> Return (Inl PanicSliceBounds)
           | Some c \<Rightarrow>
               (case IndexByte (c # rest) 124 of
                  None \<Rightarrow>
                    (if p_b64dec p = DecNil then Return (Inl PanicNilReader)
                     else Next (p\<lparr>p_s := p_s p @ ReadAll_b64dec (p_b64dec p) (c # rest),
                                   p_b64dec := DecDrained\<rparr>) (Some (last (c # rest))) [])
                | Some idx \<Rightarrow>
                    (if p_b64dec p = DecNil then Return (Inl PanicNilReader)
                     else
                       (let p1 = p\<lparr>p_s := p_s p @ ReadAll_b64dec (p_b64dec p)
                                                     (take idx (c # rest)),
                                   p_b64dec := DecDrained\<rparr>
                        in if p_lenhint p1 \<and> of_nat (length (p_s p1)) \<noteq> p_xL p1 then
                             Return (Inl (InvalidToken r))
                           else
                             Next ((push (p1\<lparr>p_state := pstateDrifting\<rparr>)
                                      (VString (p_s p1)))\<lparr>p_s := []\<rparr>)
                               (Some 124) (drop idx rest)))))
      | pstateHexString \<Rightarrow>
          (if r = 35 then
             (if p_lenhint p \<and> of_nat (length (p_b p)) \<noteq> p_xL p then
                Return (Inl (InvalidToken r))
              else
                Next ((push (p\<lparr>p_state := pstateDrifting\<rparr>) (VBytes (p_b p)))
                        \<lparr>p_b := [], p_i := 0, p_lenhint := False\<rparr>) prev rest)
           else if r = 32 \<or> r = 13 \<or> r = 10 \<or> r = 9 then Next p prev rest
           else
             (case dechex r of
                (hv, ok) \<Rightarrow>
                  if \<not> ok then Return (Inl (InvalidToken r))
                  else Next (p\<lparr>p_i := ucast hv, p_state := pstateHexStringOdd\<rparr>) prev rest))
      | pstateHexStringOdd \<Rightarrow>
          (if r = 32 \<or> r = 13 \<or> r = 10 \<or> r = 9 then Next p prev rest
           else
             (case dechex r of
                (hv, ok) \<Rightarrow>
                  if \<not> ok then Return (Inl (InvalidToken r))
                  else Next (p\<lparr>p_b := p_b p @ [push_bit 4 (ucast (p_i p) :: byte) OR hv],
                                p_state := pstateHexString\<rparr>) prev rest)))"

text \<open>The same pass, state by state.\<close>

lemma switch_Drifting:
  "p_state p = pstateDrifting \<Longrightarrow> switch p prev rest r =
          (if p_eof p then Return (Inr p)
           else if r = 32 \<or> r = 9 \<or> r = 13 \<or> r = 10 then Next p prev rest
           else if 48 \<le> r \<and> r \<le> 57 \<and> allowIntegers (p_f p) then
             Next (p\<lparr>p_state := pstateInteger, p_reissue := p_reissue p + 1\<rparr>) prev rest
           else if r = 45 \<and> allowIntegers (p_f p) then
             Next (p\<lparr>p_state := pstateNegIntegerStart\<rparr>) prev rest
           else if r = 40 \<and> allowLists (p_f p) then
             (if p_depth p \<ge> maxListDepth (p_f p) then Return (Inl ErrDepthLimitExceeded)
              else Next (p\<lparr>p_depth := p_depth p + 1, p_stack := p_stack p @ [p_tokens p],
                           p_tokens := []\<rparr>) prev rest)
           else if r = 41 \<and> allowLists (p_f p) then
             (if p_depth p = 0 then Return (Inl ErrListEnd)
              else if p_stack p = [] then Return (Inl PanicSliceBounds)
              else Next (p\<lparr>p_depth := p_depth p - 1, p_stack := butlast (p_stack p),
                           p_tokens := last (p_stack p) @ [VList (p_tokens p)]\<rparr>) prev rest)
           else if r = 34 \<and> allowQuotedString (p_f p) then
             Next (p\<lparr>p_state := pstateQuotedString\<rparr>) prev rest
           else if r = 124 \<and> allowBase64BinaryString (p_f p) then
             Next (p\<lparr>p_state := pstateBase64String, p_b64dec := DecFresh\<rparr>) prev rest
           else if r = 123 \<and> allowVerbatimBase64BinaryString (p_f p) \<and> \<not> p_sublexing p then
             Sublex (p\<lparr>p_sublexing := True, p_subb64 := DecFresh\<rparr>)
           else if allowTokens (p_f p) \<and> isTokenStartChar r then
             Next (p\<lparr>p_state := pstateToken, p_reissue := p_reissue p + 1\<rparr>) prev rest
           else if allowHexBinaryString (p_f p) \<and> r = 35 then
             Next (p\<lparr>p_state := pstateHexString\<rparr>) prev rest
           else Return (Inl (InvalidToken r)))"
  by (simp add: switch_def)

lemma switch_Token:
  "p_state p = pstateToken \<Longrightarrow> switch p prev rest r =
          (if \<not> isTokenChar r then
             Next ((push (p\<lparr>p_reissue := p_reissue p + 1, p_state := pstateDrifting\<rparr>)
                      (VString (p_s p)))\<lparr>p_s := []\<rparr>) prev rest
           else Next (p\<lparr>p_s := p_s p @ encode_rune r\<rparr>) prev rest)"
  by (simp add: switch_def)

lemma switch_NegIntegerStart:
  "p_state p = pstateNegIntegerStart \<Longrightarrow> switch p prev rest r =
          (if 48 \<le> r \<and> r \<le> 57 then
             Next (p\<lparr>p_state := pstateInteger, p_neg := True, p_reissue := p_reissue p + 1\<rparr>)
               prev rest
           else
             Next (p\<lparr>p_state := pstateToken, p_s := [45], p_reissue := p_reissue p + 1\<rparr>)
               prev rest)"
  by (simp add: switch_def)

lemma switch_Integer:
  "p_state p = pstateInteger \<Longrightarrow> switch p prev rest r =
          (if 48 \<le> r \<and> r \<le> 57 then
             Next (p\<lparr>p_i := p_i p * 10 + of_nat (r - 48)\<rparr>) prev rest
           else if r = 34 \<and> allowQuotedString (p_f p) \<and> \<not> p_neg p then
             Next (p\<lparr>p_xL := p_i p, p_i := 0, p_state := pstateLengthQuotedString\<rparr>) prev rest
           else if r = 35 \<and> allowHexBinaryString (p_f p) \<and> \<not> p_neg p then
             Next (p\<lparr>p_xL := p_i p, p_i := 0, p_state := pstateHexString, p_lenhint := True\<rparr>)
               prev rest
           else if r = 124 \<and> allowBase64BinaryString (p_f p) \<and> \<not> p_neg p then
             Next (p\<lparr>p_xL := p_i p, p_i := 0, p_state := pstateBase64String,
                     p_lenhint := True\<rparr>) prev rest
           else if r = 58 \<and> allowVerbatimBinaryString (p_f p) \<and> \<not> p_neg p then
             Next (p\<lparr>p_xL := p_i p, p_i := 0, p_state := pstateLengthByteString,
                     p_lenhint := True, p_bytemode := p_bytemode p + 1\<rparr>) prev rest
           else
             Next ((push p (integer_token (p_neg p) (p_i p)))
                     \<lparr>p_i := 0, p_neg := False, p_reissue := p_reissue p + 1,
                      p_state := pstateDrifting\<rparr>) prev rest)"
  by (simp add: switch_def)

lemma switch_LengthByteString:
  "p_state p = pstateLengthByteString \<Longrightarrow> switch p prev rest r =
          (if p_xL p = 0 then
             Next ((push (p\<lparr>p_bytemode := p_bytemode p - 1, p_state := pstateDrifting\<rparr>)
                      (VBytes (p_b p)))\<lparr>p_b := [], p_reissue := p_reissue p + 1\<rparr>) prev rest
           else Next (p\<lparr>p_b := p_b p @ [of_nat r], p_xL := p_xL p - 1\<rparr>) prev rest)"
  by (simp add: switch_def)

lemma switch_LengthQuotedString:
  "p_state p = pstateLengthQuotedString \<Longrightarrow> switch p prev rest r =
          (if p_xL p = 0 then
             Next ((push (p\<lparr>p_state := pstateDrifting\<rparr>) (VString (p_s p)))\<lparr>p_s := []\<rparr>)
               prev rest
           else Next (p\<lparr>p_s := p_s p @ encode_rune r, p_xL := p_xL p - 1\<rparr>) prev rest)"
  by (simp add: switch_def)

lemma switch_QuotedString:
  "p_state p = pstateQuotedString \<Longrightarrow> switch p prev rest r =
          (if r = 34 then
             Next ((push (p\<lparr>p_state := pstateDrifting\<rparr>) (VString (p_s p)))\<lparr>p_s := []\<rparr>)
               prev rest
           else if r = 92 then Next (p\<lparr>p_state := pstateQuotedStringEscape\<rparr>) prev rest
           else Next (p\<lparr>p_s := p_s p @ encode_rune r\<rparr>) prev rest)"
  by (simp add: switch_def)

lemma switch_QuotedStringEscape:
  "p_state p = pstateQuotedStringEscape \<Longrightarrow> switch p prev rest r =
          (let p1 = p\<lparr>p_state := pstateQuotedString\<rparr> in
           if r = 97 then Next (p1\<lparr>p_s := p_s p @ [7]\<rparr>) prev rest
           else if r = 98 then Next (p1\<lparr>p_s := p_s p @ [8]\<rparr>) prev rest
           else if r = 102 then Next (p1\<lparr>p_s := p_s p @ [12]\<rparr>) prev rest
           else if r = 110 then Next (p1\<lparr>p_s := p_s p @ [10]\<rparr>) prev rest
           else if r = 114 then Next (p1\<lparr>p_s := p_s p @ [13]\<rparr>) prev rest
           else if r = 116 then Next (p1\<lparr>p_s := p_s p @ [9]\<rparr>) prev rest
           else if r = 118 then Next (p1\<lparr>p_s := p_s p @ [11]\<rparr>) prev rest
           else if r = 13 then Next (p1\<lparr>p_state := pstateQuotedStringEscapeLF\<rparr>) prev rest
           else if r = 10 then Next (p1\<lparr>p_state := pstateQuotedStringEscapeCR\<rparr>) prev rest
           else if r = 120 then Next (p1\<lparr>p_state := pstateQuotedStringHexEscape\<rparr>) prev rest
           else if 48 \<le> r \<and> r \<le> 55 then
             Next (p1\<lparr>p_state := pstateQuotedStringOctalEscape, p_i := 0,
                      p_reissue := p_reissue p + 1\<rparr>) prev rest
           else Next (p1\<lparr>p_s := p_s p @ encode_rune r\<rparr>) prev rest)"
  by (simp add: switch_def)

lemma switch_QuotedStringHexEscape:
  "p_state p = pstateQuotedStringHexEscape \<Longrightarrow> switch p prev rest r =
          (case dechex r of
             (v, ok) \<Rightarrow>
               if \<not> ok then Return (Inl (InvalidToken r))
               else Next (p\<lparr>p_i := ucast v, p_state := pstateQuotedStringHexEscape2\<rparr>) prev rest)"
  by (simp add: switch_def)

lemma switch_QuotedStringHexEscape2:
  "p_state p = pstateQuotedStringHexEscape2 \<Longrightarrow> switch p prev rest r =
          (case dechex r of
             (v, ok) \<Rightarrow>
               if \<not> ok then Return (Inl (InvalidToken r))
               else Next (p\<lparr>p_s := p_s p @ [ucast (push_bit 4 (p_i p)) OR v],
                             p_state := pstateQuotedString, p_i := 0\<rparr>) prev rest)"
  by (simp add: switch_def)

lemma switch_QuotedStringOctalEscape:
  "p_state p = pstateQuotedStringOctalEscape \<Longrightarrow> switch p prev rest r =
          (case decoct r of
             (v, ok) \<Rightarrow>
               if \<not> ok then Return (Inl (InvalidToken r))
               else Next (p\<lparr>p_i := ucast ((ucast (push_bit 3 (p_i p)) :: byte) OR v),
                             p_state := pstateQuotedStringOctalEscape2\<rparr>) prev rest)"
  by (simp add: switch_def)

lemma switch_QuotedStringOctalEscape2:
  "p_state p = pstateQuotedStringOctalEscape2 \<Longrightarrow> switch p prev rest r =
          (case decoct r of
             (v, ok) \<Rightarrow>
               if \<not> ok then Return (Inl (InvalidToken r))
               else Next (p\<lparr>p_i := ucast ((ucast (push_bit 3 (p_i p)) :: byte) OR v),
                             p_state := pstateQuotedStringOctalEscape3\<rparr>) prev rest)"
  by (simp add: switch_def)

lemma switch_QuotedStringOctalEscape3:
  "p_state p = pstateQuotedStringOctalEscape3 \<Longrightarrow> switch p prev rest r =
          (case decoct r of
             (v, ok) \<Rightarrow>
               if \<not> ok then Return (Inl (InvalidToken r))
               else Next (p\<lparr>p_state := pstateQuotedString,
                             p_s := p_s p @ [(ucast (push_bit 3 (p_i p)) :: byte) OR v],
                             p_i := 0\<rparr>) prev rest)"
  by (simp add: switch_def)

lemma switch_QuotedStringEscapeLF:
  "p_state p = pstateQuotedStringEscapeLF \<Longrightarrow> switch p prev rest r =
          (if r \<noteq> 10 then
             Next (p\<lparr>p_reissue := p_reissue p + 1, p_state := pstateQuotedString\<rparr>) prev rest
           else Next (p\<lparr>p_state := pstateQuotedString\<rparr>) prev rest)"
  by (simp add: switch_def)

lemma switch_QuotedStringEscapeCR:
  "p_state p = pstateQuotedStringEscapeCR \<Longrightarrow> switch p prev rest r =
          (if r = 13 then
             Next (p\<lparr>p_reissue := p_reissue p + 1, p_state := pstateQuotedString\<rparr>) prev rest
           else Next (p\<lparr>p_state := pstateQuotedString\<rparr>) prev rest)"
  by (simp add: switch_def)

lemma switch_Base64String:
  "p_state p = pstateBase64String \<Longrightarrow> switch p prev rest r =
          (case prev of
             None \<Rightarrow> Return (Inl PanicSliceBounds)
           | Some c \<Rightarrow>
               (case IndexByte (c # rest) 124 of
                  None \<Rightarrow>
                    (if p_b64dec p = DecNil then Return (Inl PanicNilReader)
                     else Next (p\<lparr>p_s := p_s p @ ReadAll_b64dec (p_b64dec p) (c # rest),
                                   p_b64dec := DecDrained\<rparr>) (Some (last (c # rest))) [])
                | Some idx \<Rightarrow>
                    (if p_b64dec p = DecNil then Return (Inl PanicNilReader)
                     else
                       (let p1 = p\<lparr>p_s := p_s p @ ReadAll_b64dec (p_b64dec p)
                                                     (take idx (c # rest)),
                                   p_b64dec := DecDrained\<rparr>
                        in if p_lenhint p1 \<and> of_nat (length (p_s p1)) \<noteq> p_xL p1 then
                             Return (Inl (InvalidToken r))
                           else
                             Next ((push (p1\<lparr>p_state := pstateDrifting\<rparr>)
                                      (VString (p_s p1)))\<lparr>p_s := []\<rparr>)
                               (Some 124) (drop idx rest)))))"
  by (simp add: switch_def)

lemma switch_HexString:
  "p_state p = pstateHexString \<Longrightarrow> switch p prev rest r =
          (if r = 35 then
             (if p_lenhint p \<and> of_nat (length (p_b p)) \<noteq> p_xL p then
                Return (Inl (InvalidToken r))
              else
                Next ((push (p\<lparr>p_state := pstateDrifting\<rparr>) (VBytes (p_b p)))
                        \<lparr>p_b := [], p_i := 0, p_lenhint := False\<rparr>) prev rest)
           else if r = 32 \<or> r = 13 \<or> r = 10 \<or> r = 9 then Next p prev rest
           else
             (case dechex r of
                (hv, ok) \<Rightarrow>
                  if \<not> ok then Return (Inl (InvalidToken r))
                  else Next (p\<lparr>p_i := ucast hv, p_state := pstateHexStringOdd\<rparr>) prev rest))"
  by (simp add: switch_def)

lemma switch_HexStringOdd:
  "p_state p = pstateHexStringOdd \<Longrightarrow> switch p prev rest r =
          (if r = 32 \<or> r = 13 \<or> r = 10 \<or> r = 9 then Next p prev rest
           else
             (case dechex r of
                (hv, ok) \<Rightarrow>
                  if \<not> ok then Return (Inl (InvalidToken r))
                  else Next (p\<lparr>p_b := p_b p @ [push_bit 4 (ucast (p_i p) :: byte) OR hv],
                                p_state := pstateHexString\<rparr>) prev rest))"
  by (simp add: switch_def)

subsection \<open>The loop of \<open>write\<close>\<close>

text \<open>
  A pass that was entered through \<open>p.reissue\<close> reads no input, and may itself ask for the
  rune to be reissued. \<open>chain\<close> bounds how many such passes can follow one another from a
  state on a rune; it is what makes the loop terminate.
\<close>

definition chain :: "pstate \<Rightarrow> rune \<Rightarrow> nat" where
  "chain st r =
     (case st of
        pstateDrifting \<Rightarrow> (if (48 \<le> r \<and> r \<le> 57) \<or> isTokenStartChar r then 1 else 0)
      | pstateToken \<Rightarrow> (if isTokenChar r then 0 else 1)
      | pstateInteger \<Rightarrow> (if 48 \<le> r \<and> r \<le> 57 then 0 else 2)
      | pstateNegIntegerStart \<Rightarrow> 2
      | pstateLengthByteString \<Rightarrow> 2
      | pstateQuotedStringEscape \<Rightarrow> 1
      | pstateQuotedStringEscapeLF \<Rightarrow> 1
      | pstateQuotedStringEscapeCR \<Rightarrow> 1
      | _ \<Rightarrow> 0)"

lemma tok_facts: "isTokenStartChar r \<Longrightarrow> isTokenChar r" "48 \<le> r \<Longrightarrow> r \<le> 57 \<Longrightarrow> isTokenChar r"
  by (simp_all add: isTokenChar_def)

lemma chain_le: "chain st r \<le> 2"
  by (cases st) (simp_all add: chain_def)

lemma IndexByte_le: "IndexByte xs c = Some n \<Longrightarrow> n < length xs"
  by (induction xs arbitrary: n) (auto split: if_splits option.splits)

definition ok_action :: "Parser \<Rightarrow> bytes \<Rightarrow> rune \<Rightarrow> action \<Rightarrow> bool" where
  "ok_action q rest r a =
     (case a of
        Next p' prev' rest' \<Rightarrow>
          length rest' \<le> length rest \<and>
          3 * p_reissue p' + chain (p_state p') r < 3 * p_reissue q + 3 + chain (p_state q) r
      | Return res \<Rightarrow> True
      | Sublex p' \<Rightarrow> p_sublexing p')"

lemma ok_action_Drifting:
  "p_state q = pstateDrifting \<Longrightarrow> ok_action q rest r (switch q prev rest r)"
  by (simp add: switch_Drifting ok_action_def chain_def push_def tok_facts Let_def
      split: prod.split option.split)

lemma ok_action_Token:
  "p_state q = pstateToken \<Longrightarrow> ok_action q rest r (switch q prev rest r)"
  by (simp add: switch_Token ok_action_def chain_def push_def tok_facts Let_def
      split: prod.split option.split)

lemma ok_action_NegIntegerStart:
  "p_state q = pstateNegIntegerStart \<Longrightarrow> ok_action q rest r (switch q prev rest r)"
  by (simp add: switch_NegIntegerStart ok_action_def chain_def push_def tok_facts Let_def
      split: prod.split option.split)

lemma ok_action_Integer:
  "p_state q = pstateInteger \<Longrightarrow> ok_action q rest r (switch q prev rest r)"
  by (simp add: switch_Integer ok_action_def chain_def push_def tok_facts Let_def
      split: prod.split option.split)

lemma ok_action_LengthByteString:
  "p_state q = pstateLengthByteString \<Longrightarrow> ok_action q rest r (switch q prev rest r)"
  by (simp add: switch_LengthByteString ok_action_def chain_def push_def tok_facts Let_def
      split: prod.split option.split)

lemma ok_action_LengthQuotedString:
  "p_state q = pstateLengthQuotedString \<Longrightarrow> ok_action q rest r (switch q prev rest r)"
  by (simp add: switch_LengthQuotedString ok_action_def chain_def push_def tok_facts Let_def
      split: prod.split option.split)

lemma ok_action_QuotedString:
  "p_state q = pstateQuotedString \<Longrightarrow> ok_action q rest r (switch q prev rest r)"
  by (simp add: switch_QuotedString ok_action_def chain_def push_def tok_facts Let_def
      split: prod.split option.split)

lemma ok_action_QuotedStringEscape:
  "p_state q = pstateQuotedStringEscape \<Longrightarrow> ok_action q rest r (switch q prev rest r)"
  by (simp add: switch_QuotedStringEscape ok_action_def chain_def push_def tok_facts Let_def
      split: prod.split option.split)

lemma ok_action_QuotedStringHexEscape:
  "p_state q = pstateQuotedStringHexEscape \<Longrightarrow> ok_action q rest r (switch q prev rest r)"
  by (simp add: switch_QuotedStringHexEscape ok_action_def chain_def push_def tok_facts Let_def
      split: prod.split option.split)

lemma ok_action_QuotedStringHexEscape2:
  "p_state q = pstateQuotedStringHexEscape2 \<Longrightarrow> ok_action q rest r (switch q prev rest r)"
  by (simp add: switch_QuotedStringHexEscape2 ok_action_def chain_def push_def tok_facts Let_def
      split: prod.split option.split)

lemma ok_action_QuotedStringOctalEscape:
  "p_state q = pstateQuotedStringOctalEscape \<Longrightarrow> ok_action q rest r (switch q prev rest r)"
  by (simp add: switch_QuotedStringOctalEscape ok_action_def chain_def push_def tok_facts Let_def
      split: prod.split option.split)

lemma ok_action_QuotedStringOctalEscape2:
  "p_state q = pstateQuotedStringOctalEscape2 \<Longrightarrow> ok_action q rest r (switch q prev rest r)"
  by (simp add: switch_QuotedStringOctalEscape2 ok_action_def chain_def push_def tok_facts Let_def
      split: prod.split option.split)

lemma ok_action_QuotedStringOctalEscape3:
  "p_state q = pstateQuotedStringOctalEscape3 \<Longrightarrow> ok_action q rest r (switch q prev rest r)"
  by (simp add: switch_QuotedStringOctalEscape3 ok_action_def chain_def push_def tok_facts Let_def
      split: prod.split option.split)

lemma ok_action_QuotedStringEscapeLF:
  "p_state q = pstateQuotedStringEscapeLF \<Longrightarrow> ok_action q rest r (switch q prev rest r)"
  by (simp add: switch_QuotedStringEscapeLF ok_action_def chain_def push_def tok_facts Let_def
      split: prod.split option.split)

lemma ok_action_QuotedStringEscapeCR:
  "p_state q = pstateQuotedStringEscapeCR \<Longrightarrow> ok_action q rest r (switch q prev rest r)"
  by (simp add: switch_QuotedStringEscapeCR ok_action_def chain_def push_def tok_facts Let_def
      split: prod.split option.split)

lemma ok_action_Base64String:
  "p_state q = pstateBase64String \<Longrightarrow> ok_action q rest r (switch q prev rest r)"
  by (simp add: switch_Base64String ok_action_def chain_def push_def tok_facts Let_def
      split: prod.split option.split)

lemma ok_action_HexString:
  "p_state q = pstateHexString \<Longrightarrow> ok_action q rest r (switch q prev rest r)"
  by (simp add: switch_HexString ok_action_def chain_def push_def tok_facts Let_def
      split: prod.split option.split)

lemma ok_action_HexStringOdd:
  "p_state q = pstateHexStringOdd \<Longrightarrow> ok_action q rest r (switch q prev rest r)"
  by (simp add: switch_HexStringOdd ok_action_def chain_def push_def tok_facts Let_def
      split: prod.split option.split)


lemma ok_action_switch: "ok_action q rest r (switch q prev rest r)"
  by (cases "p_state q")
     (simp_all add: ok_action_Drifting ok_action_Integer ok_action_NegIntegerStart
        ok_action_LengthQuotedString ok_action_LengthByteString ok_action_QuotedString
        ok_action_QuotedStringEscape ok_action_QuotedStringHexEscape
        ok_action_QuotedStringHexEscape2 ok_action_QuotedStringOctalEscape
        ok_action_QuotedStringOctalEscape2 ok_action_QuotedStringOctalEscape3
        ok_action_QuotedStringEscapeCR ok_action_QuotedStringEscapeLF
        ok_action_Base64String ok_action_Token ok_action_HexString ok_action_HexStringOdd)

lemma switch_Next_measure:
  "switch q prev rest r = Next p' prev' rest' \<Longrightarrow>
     length rest' \<le> length rest \<and>
     3 * p_reissue p' + chain (p_state p') r < 3 * p_reissue q + 3 + chain (p_state q) r"
  using ok_action_switch [of q rest r prev] by (simp add: ok_action_def)

lemma switch_Sublex_sublexing: "switch q prev rest r = Sublex p' \<Longrightarrow> p_sublexing p'"
  using ok_action_switch [of q rest r prev] by (simp add: ok_action_def)

text \<open>
  Reading the next rune: one byte when \<open>p.bytemode\<close> is set, a UTF-8 sequence otherwise.
\<close>

definition read_rune :: "Parser \<Rightarrow> bytes \<Rightarrow> rune \<times> nat" where
  "read_rune p rest =
     (if p_bytemode p \<noteq> 0 then (unat (hd rest), 1) else DecodeRune rest)"

lemma DecodeRune_size: "rest \<noteq> [] \<Longrightarrow> 1 \<le> snd (DecodeRune rest)"
  by (cases rest) (simp_all add: Let_def)

lemma read_rune_size: "rest \<noteq> [] \<Longrightarrow> read_rune p rest = (r, sz) \<Longrightarrow> 1 \<le> sz"
  using DecodeRune_size [of rest] by (auto simp: read_rune_def split: if_splits)

lemma b64_quantum_length:
  "b64_quantum c0 c1 c2 c3 = Full bs \<Longrightarrow> length bs = 3"
  "b64_quantum c0 c1 c2 c3 = Padded bs \<Longrightarrow> length bs \<le> 2"
  by (auto simp: b64_quantum_def split: option.splits if_splits)

lemma b64_decode_length: "4 * length (fst (b64_decode cs)) \<le> 3 * length cs"
proof (induction cs rule: b64_decode.induct)
  case (1 c0 c1 c2 c3 cs)
  show ?case
  proof (cases "b64_quantum c0 c1 c2 c3")
    case (Full bs)
    with "1.IH" [OF Full] b64_quantum_length(1) [OF Full] show ?thesis by simp
  next
    case (Padded bs)
    with b64_quantum_length(2) [OF Padded] show ?thesis by simp
  next
    case Corrupt
    then show ?thesis by simp
  qed
qed simp_all

lemma filteringReader_Read_filter:
  "0 < cap \<Longrightarrow> filteringReader_Read cap src = (out, left) \<Longrightarrow>
     filter (\<lambda>b. \<not> is_space b) src = out @ filter (\<lambda>b. \<not> is_space b) left \<and>
     (out = [] \<longrightarrow> left = [])"
proof (induction cap src arbitrary: out left rule: filteringReader_Read.induct)
  case (1 cap src)
  have split: "filter (\<lambda>b. \<not> is_space b) src =
      filter (\<lambda>b. \<not> is_space b) (take cap src) @ filter (\<lambda>b. \<not> is_space b) (drop cap src)"
    by (metis append_take_drop_id filter_append)
  show ?case
  proof (cases "take cap src = []")
    case True
    with "1.prems" show ?thesis
      by (auto simp: filteringReader_Read.simps [of cap src])
  next
    case False
    show ?thesis
    proof (cases "filter (\<lambda>b. \<not> is_space b) (take cap src) \<noteq> []")
      case True
      with False "1.prems" split show ?thesis
        by (auto simp: filteringReader_Read.simps [of cap src] Let_def)
    next
      case nokeep: False
      with False "1.prems" have "filteringReader_Read cap (drop cap src) = (out, left)"
        by (simp add: filteringReader_Read.simps [of cap src] Let_def)
      from "1.IH" [OF refl refl False _ "1.prems"(1) this] nokeep split show ?thesis
        by simp
    qed
  qed
qed

lemma filtered_all_filter:
  "0 < cap \<Longrightarrow> filtered_all cap src = filter (\<lambda>b. \<not> is_space b) src"
proof (induction cap src rule: filtered_all.induct)
  case (1 cap src)
  obtain out left where r: "filteringReader_Read cap src = (out, left)"
    by (cases "filteringReader_Read cap src")
  note f = filteringReader_Read_filter [OF "1.prems" r]
  show ?case
  proof (cases "out = []")
    case True
    with r f show ?thesis by (simp add: filtered_all.simps [of cap src])
  next
    case False
    with "1.IH" [OF r [symmetric] False "1.prems"] r f show ?thesis
      by (simp add: filtered_all.simps [of cap src])
  qed
qed

lemma ReadAll_b64dec_length:
  assumes ne: "ReadAll_b64dec d seg \<noteq> []"
  shows "length (ReadAll_b64dec d seg) < length seg"
proof -
  from ne have d: "d = DecFresh" by (cases d) (simp_all add: ReadAll_b64dec_def)
  define fs where "fs = filter (\<lambda>b. \<not> is_space b) seg"
  define n where "n = length (fst (b64_decode fs))"
  have eq: "ReadAll_b64dec d seg = fst (b64_decode fs)"
    using d by (simp add: ReadAll_b64dec_def filtered_all_filter fs_def)
  have "4 * n \<le> 3 * length fs" unfolding n_def by (rule b64_decode_length)
  moreover have "length fs \<le> length seg" by (simp add: fs_def)
  moreover from ne eq have "0 < n" by (simp add: n_def)
  ultimately have "n < length seg" by arith
  with eq show ?thesis by (simp add: n_def)
qed

text \<open>
  \<open>write_loop p prev rest r\<close> is the \<open>for\<close> loop of \<open>write\<close> with the cursor at \<open>rest\<close> and
  the local \<open>r\<close>; \<open>write\<close> itself starts it with \<open>i = 0\<close> and \<open>r = 0\<close>. \<open>Write\<close> is
  \<open>Parser.Write\<close>. \<open>subb64_Write\<close> is \<open>writeDecoder.Write\<close> on \<open>p.subb64\<close>, whose sink is
  \<open>write\<close>: the decoded bytes are copied to the sink, then a decoding error is reported.
  The byte counts the three functions return are dropped: \<open>Parse\<close> and \<open>Close\<close> discard them.
\<close>

function write_loop :: "Parser \<Rightarrow> byte option \<Rightarrow> bytes \<Rightarrow> rune \<Rightarrow> error + Parser"
  and Write :: "Parser \<Rightarrow> bytes \<Rightarrow> error + Parser"
  and subb64_Write :: "Parser \<Rightarrow> bytes \<Rightarrow> error + Parser" where
  "write_loop p prev rest r =
     (if 0 < p_reissue p then
        (case switch (p\<lparr>p_reissue := p_reissue p - 1\<rparr>) prev rest r of
           Next p' prev' rest' \<Rightarrow> write_loop p' prev' rest' r
         | Return res \<Rightarrow> res
         | Sublex p' \<Rightarrow> Write p' rest)
      else if rest = [] then Inr p
      else
        (case read_rune p rest of
           (r', sz) \<Rightarrow>
             (case switch p (Some (rest ! (sz - 1))) (drop sz rest) r' of
                Next p' prev' rest' \<Rightarrow> write_loop p' prev' rest' r'
              | Return res \<Rightarrow> res
              | Sublex p' \<Rightarrow> Write p' (drop sz rest))))"
| "Write p b =
     (if p_sublexing p then
        (case IndexByte b 125 of
           None \<Rightarrow> subb64_Write p b
         | Some idx \<Rightarrow>
             (case subb64_Write p (take idx b) of
                Inl e \<Rightarrow> Inl e
              | Inr p' \<Rightarrow> write_loop (p'\<lparr>p_sublexing := False\<rparr>) None (drop (idx + 1) b) 0))
      else write_loop p None b 0)"
| "subb64_Write p b =
     (if p_subb64 p = DecNil then Inl PanicNilDecoder
      else
        (let out = ReadAll_b64dec (p_subb64 p) b;
             ok = (p_subb64 p = DecDrained \<or> snd (b64_decode (filtered_all 1024 b)))
         in case (if out = [] then Inr (p\<lparr>p_subb64 := DecDrained\<rparr>)
                  else write_loop (p\<lparr>p_subb64 := DecDrained\<rparr>) None out 0) of
              Inl e \<Rightarrow> Inl e
            | Inr p' \<Rightarrow> if ok then Inr p' else Inl ErrBase64))"
  by pat_completeness auto
termination
proof (relation "inv_image (less_than <*lex*> less_than)
     (\<lambda>x. case x of
         Inl (p, prev, rest, r) \<Rightarrow> (2 * length rest + 1, 3 * p_reissue p + chain (p_state p) r)
       | Inr (Inl (p, b)) \<Rightarrow> (2 * length b + 1, if p_sublexing p then 0 else 3 * p_reissue p + 3)
       | Inr (Inr (p, b)) \<Rightarrow> (2 * length b, 0))", goal_cases)
  case 1
  show ?case by (intro wf_inv_image wf_lex_prod wf_less_than)
next
  case (2 p prev rest r p' prev' rest')
  from switch_Next_measure [OF 2(2)] 2(1) show ?case by auto
next
  case (3 p prev rest r p')
  from switch_Sublex_sublexing [OF 3(2)] 3(1) show ?case by simp
next
  case (4 p prev rest r r' sz p' prev' rest')
  from read_rune_size [OF 4(2) 4(3) [symmetric]] 4(2)
  have "length (drop sz rest) < length rest" by (cases rest) auto
  with switch_Next_measure [OF 4(4)] show ?case by simp
next
  case (5 p prev rest r r' sz p')
  from read_rune_size [OF 5(2) 5(3) [symmetric]] 5(2)
  have "length (drop sz rest) < length rest" by (cases rest) auto
  then show ?case by simp
next
  case (6 p b)
  then show ?case by simp
next
  case (7 p b idx)
  then show ?case by (simp add: min_def)
next
  case (8 p b idx p')
  from IndexByte_le [OF 8(2)] have "length b - Suc idx < length b" by arith
  then show ?case by simp
next
  case (9 p b)
  from chain_le [of "p_state p" 0] 9 show ?case by simp
next
  case (10 p b out ok)
  from ReadAll_b64dec_length [of "p_subb64 p" b] 10 show ?case by simp
qed

declare write_loop.simps [simp del] Write.simps [simp del] subb64_Write.simps [simp del]

definition NewParser :: "Format \<Rightarrow> Parser" where
  "NewParser fmt =
     \<lparr> p_f = fmt, p_state = pstateDrifting, p_s = [], p_b = [], p_xL = 0, p_i = 0,
       p_neg = False, p_lenhint = False,
       p_bytemode = (if \<not> unicodeStream fmt then 1 else 0), p_reissue = 0,
       p_tokens = [], p_stack = [], p_depth = 0, p_eof = False, p_b64dec = DecNil,
       p_sublexing = False, p_subb64 = DecNil \<rparr>"

definition Close :: "Parser \<Rightarrow> error + Parser" where
  "Close p = Write (p\<lparr>p_eof := True\<rparr>) [0]"

definition Parse :: "Format \<Rightarrow> bytes \<Rightarrow> error + val list" where
  "Parse fmt b =
     (case Write (NewParser fmt) b of
        Inl e \<Rightarrow> Inl e
      | Inr p \<Rightarrow> (case Close p of Inl e \<Rightarrow> Inl e | Inr p' \<Rightarrow> Inr (p_tokens p')))"

section \<open>Query helpers\<close>

text \<open>\<open>Hhy\<close>: is \<open>v\<close> a non-empty list whose first element is the string \<open>s\<close>?\<close>

definition Hhy :: "val \<Rightarrow> bytes \<Rightarrow> bool" where
  "Hhy v s = (case v of VList (VString ss # xs) \<Rightarrow> ss = s | _ \<Rightarrow> False)"

text \<open>
  \<open>Q1bhy\<close>, \<open>Q1bhyt\<close> and \<open>Q1bsyt\<close> return a slice that may be nil: \<open>None\<close> is nil. The type
  assertion in \<open>Q1bhy\<close> follows a successful \<open>Hhy\<close>, so it cannot fail.
\<close>

fun Q1bhy :: "val list \<Rightarrow> bytes \<Rightarrow> val list option" where
  "Q1bhy [] s = None"
| "Q1bhy (x # xs) s =
     (if Hhy x s then (case x of VList l \<Rightarrow> Some l | _ \<Rightarrow> None) else Q1bhy xs s)"

definition Q1bhyt :: "val list \<Rightarrow> bytes \<Rightarrow> val list option" where
  "Q1bhyt xs s =
     (case Q1bhy xs s of None \<Rightarrow> None
      | Some v \<Rightarrow> if length v = 0 then Some v else Some (tl v))"

fun Q1bsyt_loop :: "val list \<Rightarrow> val list \<Rightarrow> error + val list option" where
  "Q1bsyt_loop cur [] = Inr (Some cur)"
| "Q1bsyt_loop cur (selv # selvs) =
     (case selv of
        VString s \<Rightarrow>
          (case Q1bhyt cur s of None \<Rightarrow> Inr None | Some cur' \<Rightarrow> Q1bsyt_loop cur' selvs)
      | _ \<Rightarrow> Inl PanicNonStringSelector)"

definition Q1bsyt :: "val list \<Rightarrow> bytes \<Rightarrow> error + val list option" where
  "Q1bsyt xs sel =
     (case Parse SX sel of
        Inl e \<Rightarrow> Inl PanicBadSelector
      | Inr selvs \<Rightarrow> Q1bsyt_loop xs selvs)"

section \<open>Running the parser on concrete input\<close>

lemma write_loop_reissue:
  "0 < p_reissue p \<Longrightarrow> write_loop p prev rest r =
     (case switch (p\<lparr>p_reissue := p_reissue p - 1\<rparr>) prev rest r of
        Next p' prev' rest' \<Rightarrow> write_loop p' prev' rest' r
      | Return res \<Rightarrow> res
      | Sublex p' \<Rightarrow> Write p' rest)"
  by (simp add: write_loop.simps [of p prev rest r])

lemma write_loop_Nil: "p_reissue p = 0 \<Longrightarrow> write_loop p prev [] r = Inr p"
  by (simp add: write_loop.simps [of p prev "[]" r])

lemma write_loop_Cons_byte:
  "p_reissue p = 0 \<Longrightarrow> p_bytemode p \<noteq> 0 \<or> c < 128 \<Longrightarrow> write_loop p prev (c # rest) r =
     (case switch p (Some c) rest (unat c) of
        Next p' prev' rest' \<Rightarrow> write_loop p' prev' rest' (unat c)
      | Return res \<Rightarrow> res
      | Sublex p' \<Rightarrow> Write p' rest)"
  by (cases "switch p (Some c) rest (unat c)")
     (auto simp: write_loop.simps [of p prev "c # rest" r] read_rune_def Let_def word_less_nat_alt)

lemma bytes_of_simps [simp]:
  "bytes_of [] = []" "bytes_of (c # cs) = of_nat (of_char c) # bytes_of cs"
  by (simp_all add: bytes_of_def)

lemma filtered_all_1024: "filtered_all 1024 src = filter (\<lambda>b. \<not> is_space b) src"
  by (rule filtered_all_filter) simp

lemmas switch_simps = switch_Drifting switch_Integer switch_NegIntegerStart
  switch_LengthQuotedString switch_LengthByteString switch_QuotedString
  switch_QuotedStringEscape switch_QuotedStringHexEscape
  switch_QuotedStringHexEscape2 switch_QuotedStringOctalEscape
  switch_QuotedStringOctalEscape2 switch_QuotedStringOctalEscape3
  switch_QuotedStringEscapeCR switch_QuotedStringEscapeLF
  switch_Base64String switch_Token switch_HexString switch_HexStringOdd

lemmas eval_simps = Parse_def Close_def NewParser_def SX_def Csexp_def
  Write.simps subb64_Write.simps write_loop_reissue write_loop_Nil write_loop_Cons_byte
  switch_simps push_def dechex_def decoct_def isTokenStartChar_def isTokenChar_def
  integer_token_def ReadAll_b64dec_def filtered_all_1024 is_space_def b64_quantum_def
  b64val_def encode_rune_def Let_def

lemma FormatUint_digit: "n < 10 \<Longrightarrow> FormatUint n = [of_nat (48 + n)]"
  by (simp add: FormatUint.simps [of n])

lemma FormatUint_more:
  "10 \<le> n \<Longrightarrow> FormatUint n = FormatUint (n div 10) @ [of_nat (48 + n mod 10)]"
  by (simp add: FormatUint.simps [of n])

lemmas ser_simps = String_def writeList_def spacer_write_def writeUint_def writeInt_def
  FormatInt_def FormatUint_digit FormatUint_more

section \<open>Properties of the specification\<close>

subsection \<open>Hex digits\<close>



subsection \<open>The length-hint flag\<close>



subsection \<open>Integer atoms\<close>

text \<open>
  Claim C2. On finishing an integer atom the parser is to pick the narrowest variant:
  \<open>int\<close> when the value fits 32 bits, otherwise \<open>int64\<close> (non-negative values up to
  \<open>2^63 - 1\<close> included), otherwise \<open>uint64\<close>. The code does not do this for non-negative
  values: everything above \<open>2^31 - 1\<close> is pushed as \<open>uint64\<close>, so \<open>4294967296\<close>,
  \<open>2147483648\<close> and \<open>9223372036854775807\<close> come out as \<open>uint64\<close> although each fits
  \<open>int64\<close>. A negative literal whose magnitude exceeds \<open>2^63\<close> is pushed as an \<open>int64\<close>
  that has wrapped around.
\<close>

theorem integer_token_skips_int64:
  "integer_token False 4294967296 = VUint64 4294967296 \<and>
   Parse SX (bytes_of ''4294967296'') = Inr [VUint64 4294967296] \<and>
   Parse SX (bytes_of ''2147483647 2147483648'') = Inr [VInt 2147483647, VUint64 2147483648] \<and>
   Parse SX (bytes_of ''9223372036854775807'') = Inr [VUint64 9223372036854775807] \<and>
   Parse SX (bytes_of ''-2147483648 -2147483649'')
     = Inr [VInt (- 2147483648), VInt64 (- 2147483649)] \<and>
   Parse SX (bytes_of ''-9223372036854775809'') = Inr [VInt64 9223372036854775807]"
proof -
  have a: "integer_token False 4294967296 = VUint64 4294967296"
    by (simp add: integer_token_def)
  have b: "Parse SX (bytes_of ''4294967296'') = Inr [VUint64 4294967296]"
    by (simp add: eval_simps)
  have c: "Parse SX (bytes_of ''2147483647 2147483648'')
      = Inr [VInt 2147483647, VUint64 2147483648]"
    by (simp add: eval_simps)
  have d: "Parse SX (bytes_of ''9223372036854775807'') = Inr [VUint64 9223372036854775807]"
    by (simp add: eval_simps)
  have e: "Parse SX (bytes_of ''-2147483648 -2147483649'')
      = Inr [VInt (- 2147483648), VInt64 (- 2147483649)]"
    by (simp add: eval_simps)
  have f: "Parse SX (bytes_of ''-9223372036854775809'') = Inr [VInt64 9223372036854775807]"
    by (simp add: eval_simps)
  from a b c d e f show ?thesis by blast
qed

subsection \<open>Spaces in the serializer's output\<close>

text \<open>
  Claim C3. The serializer is to put one space before an atom exactly when that atom and
  the atom written just before it at the same list level are both integers. The spacer's
  remembered type is set by integers and never reset by a string or a list, so an integer
  that follows a string or a list still gets a space when any integer came earlier in the
  list: \<open>1\<close>, \<open>"a"\<close>, \<open>2\<close> is written as \<open>11:a 2\<close>, and \<open>1\<close>, \<open>()\<close>, \<open>2\<close> as \<open>1() 2\<close>.
\<close>

theorem spacer_never_reset:
  "String SX [VInt 1, VBytes [97], VInt 2] = Inr (bytes_of ''11:a 2'') \<and>
   String SX [VInt 1, VList [], VInt 2] = Inr (bytes_of ''1() 2'') \<and>
   String SX [VBytes [97], VInt 2] = Inr (bytes_of ''1:a2'') \<and>
   String SX [VInt 1, VInt 2] = Inr (bytes_of ''1 2'')"
  by (simp add: ser_simps)

subsection \<open>Length hints\<close>

text \<open>
  Claim C5. A \<open>|...|\<close> or \<open>#...#\<close> atom with a decimal length hint is to be rejected when
  the decoded length differs from the hint and accepted when it agrees. For \<open>#...#\<close> the
  code does so. For \<open>|...|\<close> it does not: only the \<open>|\<close> case of the drifting state creates
  the base64 decoder, and the \<open>N|\<close> case of the integer state enters the base64 state
  without one. On a fresh parser \<open>1|YQ==|\<close> reads from a nil reader; after an earlier
  base64 atom the old, exhausted decoder yields nothing, so \<open>1|YQ==|\<close> is rejected although
  one byte is encoded, and the wrong hint in \<open>0|YQ==|\<close> is accepted.
\<close>

theorem hinted_base64_has_no_decoder:
  "Parse SX (bytes_of ''1|YQ==|'') = Inl PanicNilReader \<and>
   Parse SX (bytes_of ''|YQ==|1|YQ==|'') = Inl (InvalidToken 89) \<and>
   Parse SX (bytes_of ''|YQ==|0|YQ==|'') = Inr [VString [97], VString []] \<and>
   Parse SX (bytes_of ''1#61#'') = Inr [VBytes [97]] \<and>
   Parse SX (bytes_of ''2#61#'') = Inl (InvalidToken 35)"
proof -
  have a: "Parse SX (bytes_of ''1|YQ==|'') = Inl PanicNilReader"
    by (simp add: eval_simps)
  have b: "Parse SX (bytes_of ''|YQ==|1|YQ==|'') = Inl (InvalidToken 89)"
    by (simp add: eval_simps)
  have c: "Parse SX (bytes_of ''|YQ==|0|YQ==|'') = Inr [VString [97], VString []]"
    by (simp add: eval_simps)
  have d: "Parse SX (bytes_of ''1#61#'') = Inr [VBytes [97]]"
    by (simp add: eval_simps)
  have e: "Parse SX (bytes_of ''2#61#'') = Inl (InvalidToken 35)"
    by (simp add: eval_simps)
  from a b c d e show ?thesis by blast
qed

subsection \<open>Query helpers\<close>

lemma Parse_query_example:
  "Parse SX (bytes_of ''(alpha) (beta (x) (y qwe) (z)) (gamma) (delta)'') =
     Inr [VList [VString (bytes_of ''alpha'')],
          VList [VString (bytes_of ''beta''), VList [VString (bytes_of ''x'')],
                 VList [VString (bytes_of ''y''), VString (bytes_of ''qwe'')],
                 VList [VString (bytes_of ''z'')]],
          VList [VString (bytes_of ''gamma'')],
          VList [VString (bytes_of ''delta'')]]"
  by (simp add: eval_simps)

lemma Parse_selector_example:
  "Parse SX (bytes_of ''beta y'') = Inr [VString (bytes_of ''beta''), VString (bytes_of ''y'')]"
  by (simp add: eval_simps)

text \<open>
  Claim C8. \<open>Hhy v s\<close> holds exactly when \<open>v\<close> is a non-empty list whose first element is
  the string \<open>s\<close>. For the parse of \<open>(alpha) (beta (x) (y qwe) (z)) (gamma) (delta)\<close> the
  selector \<open>beta y\<close> gives a list of one element, and its canonical form is \<open>3:qwe\<close>.
\<close>

theorem Hhy_and_selector_example:
  "(Hhy v s \<longleftrightarrow> (\<exists>xs. v = VList (VString s # xs))) \<and>
   (\<exists>xs r. Parse SX (bytes_of ''(alpha) (beta (x) (y qwe) (z)) (gamma) (delta)'') = Inr xs \<and>
      Q1bsyt xs (bytes_of ''beta y'') = Inr (Some r) \<and> length r = 1 \<and>
      String SX r = Inr (bytes_of ''3:qwe''))"
proof
  show "Hhy v s \<longleftrightarrow> (\<exists>xs. v = VList (VString s # xs))"
    by (auto simp: Hhy_def split: val.splits list.splits)
next
  let ?xs = "[VList [VString (bytes_of ''alpha'')],
          VList [VString (bytes_of ''beta''), VList [VString (bytes_of ''x'')],
                 VList [VString (bytes_of ''y''), VString (bytes_of ''qwe'')],
                 VList [VString (bytes_of ''z'')]],
          VList [VString (bytes_of ''gamma'')],
          VList [VString (bytes_of ''delta'')]]"
  have sel: "Q1bsyt ?xs (bytes_of ''beta y'') = Inr (Some [VString (bytes_of ''qwe'')])"
    unfolding Q1bsyt_def Parse_selector_example
    by (simp add: Q1bhyt_def Hhy_def)
  have ser: "String SX [VString (bytes_of ''qwe'')] = Inr (bytes_of ''3:qwe'')"
    by (simp add: ser_simps)
  from Parse_query_example sel ser
  show "\<exists>xs r. Parse SX (bytes_of ''(alpha) (beta (x) (y qwe) (z)) (gamma) (delta)'') = Inr xs \<and>
      Q1bsyt xs (bytes_of ''beta y'') = Inr (Some r) \<and> length r = 1 \<and>
      String SX r = Inr (bytes_of ''3:qwe'')"
    by (intro exI [of _ ?xs] exI [of _ "[VString (bytes_of ''qwe'')]"] conjI) simp_all
qed

subsection \<open>Base64 atoms\<close>

text \<open>
  Claim C4. When the parser completes a \<open>|base64|\<close> atom, the decoded content is pushed
  onto the token list as a string value, not as a byte-slice value: the pass of the
  base64 state that finds the closing \<open>|\<close> appends \<open>VString\<close> of the scratch string, which
  holds the decoded bytes of the segment before the \<open>|\<close>, and returns to the drifting
  state. For example \<open>|YXBw|\<close> parses to the string \<open>app\<close>.
\<close>

theorem base64_atom_is_string:
  "(p_state p = pstateBase64String \<and> switch p prev rest r = Next p' prev' rest' \<and>
    p_state p' \<noteq> pstateBase64String \<longrightarrow>
    (\<exists>c idx. prev = Some c \<and> IndexByte (c # rest) 124 = Some idx \<and>
       p_tokens p' =
         p_tokens p @ [VString (p_s p @ ReadAll_b64dec (p_b64dec p) (take idx (c # rest)))] \<and>
       p_state p' = pstateDrifting)) \<and>
   Parse SX (bytes_of ''|YXBw|'') = Inr [VString (bytes_of ''app'')] \<and>
   Parse Csexp (bytes_of ''|YXBw|'') = Inr [VString (bytes_of ''app'')]"
proof (intro conjI impI)
  assume a: "p_state p = pstateBase64String \<and> switch p prev rest r = Next p' prev' rest' \<and>
    p_state p' \<noteq> pstateBase64String"
  then have st: "p_state p = pstateBase64String"
    and sw: "switch p prev rest r = Next p' prev' rest'"
    and st': "p_state p' \<noteq> pstateBase64String" by simp_all
  from sw st obtain c where c: "prev = Some c"
    by (cases prev) (simp_all add: switch_Base64String)
  from sw st st' c obtain idx where idx: "IndexByte (c # rest) 124 = Some idx"
    by (cases "IndexByte (c # rest) 124")
       (auto simp: switch_Base64String split: if_splits)
  from sw st c idx
  have "p_tokens p' =
         p_tokens p @ [VString (p_s p @ ReadAll_b64dec (p_b64dec p) (take idx (c # rest)))] \<and>
       p_state p' = pstateDrifting"
    by (auto simp: switch_Base64String push_def Let_def split: if_splits)
  with c idx show "\<exists>c idx. prev = Some c \<and> IndexByte (c # rest) 124 = Some idx \<and>
       p_tokens p' =
         p_tokens p @ [VString (p_s p @ ReadAll_b64dec (p_b64dec p) (take idx (c # rest)))] \<and>
       p_state p' = pstateDrifting"
    by blast
next
  show "Parse SX (bytes_of ''|YXBw|'') = Inr [VString (bytes_of ''app'')]"
    by (simp add: eval_simps)
next
  show "Parse Csexp (bytes_of ''|YXBw|'') = Inr [VString (bytes_of ''app'')]"
    by (simp add: eval_simps)
qed

text \<open>
  The pass at the first content byte of \<open>|YQ==|\<close>: the token list, empty before, holds the
  string \<open>a\<close> after it.
\<close>

theorem base64_atom_is_string_witness:
  "(let p = (NewParser SX)\<lparr>p_state := pstateBase64String, p_b64dec := DecFresh\<rparr>;
        p' = push (p\<lparr>p_b64dec := DecDrained, p_state := pstateDrifting\<rparr>) (VString [97])
    in p_state p = pstateBase64String \<and>
       switch p (Some 89) (bytes_of ''Q==|'') 89 = Next p' (Some 124) [] \<and>
       p_state p' \<noteq> pstateBase64String \<and>
       p_tokens p' = [VString [97]])"
  using base64_atom_is_string
    [of "(NewParser SX)\<lparr>p_state := pstateBase64String, p_b64dec := DecFresh\<rparr>"
        "Some 89" "bytes_of ''Q==|''" 89
        "push ((NewParser SX)\<lparr>p_state := pstateBase64String, p_b64dec := DecFresh,
                               p_b64dec := DecDrained, p_state := pstateDrifting\<rparr>)
           (VString [97])"
        "Some 124" "[]"]
  by (simp add: Let_def NewParser_def switch_Base64String push_def ReadAll_b64dec_def
      filtered_all_1024 is_space_def b64_quantum_def b64val_def)

subsection \<open>The depth limit\<close>







end
